theory Spec2Isabelle
  imports Main "HOL-Library.Char_ord" "HOL-Library.List_Lexorder"
begin

section \<open>Strings\<close>

text \<open>
  Text is modelled as \<^typ>\<open>string\<close>, one \<^typ>\<open>char\<close> per character, and the model is
  meant for ASCII text: there Python's \<^verbatim>\<open>str.lower\<close>, SQLite's \<^verbatim>\<open>LOWER\<close> and the
  \<^verbatim>\<open>NOCASE\<close> collation all fold exactly the letters A to Z.
\<close>

definition lower_chr :: "char \<Rightarrow> char" where
  "lower_chr c =
     (let n = (of_char c :: nat) in if 65 \<le> n \<and> n \<le> 90 then char_of (n + 32) else c)"

definition lower :: "string \<Rightarrow> string" where
  "lower s = map lower_chr s"

section \<open>The inventory store (src/database.py)\<close>

text \<open>
  Timestamps are kept as the ISO texts that SQLite stores and compares; the clock
  (\<^verbatim>\<open>CURRENT_TIMESTAMP\<close>, \<^verbatim>\<open>datetime.now()\<close>) is an argument of every operation that reads it.
\<close>

type_synonym stamp = string

text \<open>\<^verbatim>\<open>MedicineData\<close>, and \<^verbatim>\<open>Medicine\<close> which has the same fields and three more.\<close>

record medicine_data =
  name :: string
  quantity :: int
  unit :: string
  expiry_date :: "stamp option"
  location :: "string option"
  added_by_user_id :: int
  added_by_username :: string
  group_chat_id :: int

record medicine = medicine_data +
  id_m :: int
  added_date :: stamp
  last_updated :: stamp

record activity =
  id_a :: int
  medicine_id :: int
  action :: string
  quantity_change :: "int option"
  user_id :: int
  username :: string
  timestamp :: stamp
  group_chat_id_a :: int

datatype error =
    DatabaseError
  | InsufficientStockError (available: int) (requested: int)
  | IntegrityError
  | ValueError
  | IndexError
  | TypeError
  | AttributeError

text \<open>
  The database: both tables as lists of rows in rowid order (an \<^verbatim>\<open>INSERT\<close> appends), and
  the \<^verbatim>\<open>AUTOINCREMENT\<close> counters. SQL leaves the order of a \<^verbatim>\<open>SELECT\<close> without
  \<^verbatim>\<open>ORDER BY\<close> to the engine; here such a query scans the list front to back.
\<close>

record db =
  medicines :: "medicine list"
  medicines_seq :: int
  activity_log :: "activity list"
  activity_log_seq :: int

definition empty_db :: db where
  "empty_db = \<lparr>medicines = [], medicines_seq = 0, activity_log = [], activity_log_seq = 0\<rparr>"

text \<open>\<^verbatim>\<open>COALESCE(?, column)\<close>.\<close>

definition coalesce :: "'a option \<Rightarrow> 'a option \<Rightarrow> 'a option" where
  "coalesce new old = (case new of None \<Rightarrow> old | Some v \<Rightarrow> Some v)"

text \<open>\<^verbatim>\<open>SELECT * FROM medicines WHERE id = ?\<close>, first row.\<close>

definition fetch_by_id :: "int \<Rightarrow> db \<Rightarrow> medicine option" where
  "fetch_by_id i d = find (\<lambda>r. id_m r = i) (medicines d)"

definition find_by_exact_name :: "string \<Rightarrow> int \<Rightarrow> db \<Rightarrow> medicine option" where
  "find_by_exact_name nm g d =
     find (\<lambda>r. lower (name r) = lower nm \<and> group_chat_id r = g) (medicines d)"

definition get_by_id :: "int \<Rightarrow> int \<Rightarrow> db \<Rightarrow> medicine option" where
  "get_by_id i g d = find (\<lambda>r. id_m r = i \<and> group_chat_id r = g) (medicines d)"

text \<open>The \<^verbatim>\<open>UPDATE ... WHERE id = ?\<close> of \<^verbatim>\<open>add_medicine\<close>.\<close>

definition upsert_row :: "stamp \<Rightarrow> int \<Rightarrow> stamp option \<Rightarrow> string option \<Rightarrow> medicine \<Rightarrow> medicine" where
  "upsert_row now q e l r =
     r\<lparr>quantity := q, last_updated := now,
       expiry_date := coalesce e (expiry_date r), location := coalesce l (location r)\<rparr>"

definition new_row :: "stamp \<Rightarrow> int \<Rightarrow> medicine_data \<Rightarrow> medicine" where
  "new_row now i data =
     \<lparr>name = name data, quantity = quantity data, unit = unit data,
      expiry_date = expiry_date data, location = location data,
      added_by_user_id = added_by_user_id data, added_by_username = added_by_username data,
      group_chat_id = group_chat_id data,
      id_m = i, added_date = now, last_updated = now\<rparr>"

text \<open>
  The \<^verbatim>\<open>INSERT\<close> checks \<^verbatim>\<open>UNIQUE(group_chat_id, name COLLATE NOCASE)\<close>; a violation is
  sqlite's IntegrityError and nothing is written.
\<close>

definition add_medicine :: "stamp \<Rightarrow> medicine_data \<Rightarrow> db \<Rightarrow> (error + medicine) \<times> db" where
  "add_medicine now data d =
     (case find_by_exact_name (name data) (group_chat_id data) d of
        Some existing \<Rightarrow>
          (let new_quantity = quantity existing + quantity data;
               d' = d\<lparr>medicines :=
                        map (\<lambda>r. if id_m r = id_m existing
                                  then upsert_row now new_quantity (expiry_date data) (location data) r
                                  else r) (medicines d)\<rparr>
           in (case fetch_by_id (id_m existing) d' of
                 None \<Rightarrow> (Inl DatabaseError, d')
               | Some row \<Rightarrow> (Inr row, d')))
      | None \<Rightarrow>
          (if \<exists>r \<in> set (medicines d).
                group_chat_id r = group_chat_id data \<and> lower (name r) = lower (name data)
           then (Inl IntegrityError, d)
           else
             (let lastrowid = medicines_seq d + 1;
                  d' = d\<lparr>medicines := medicines d @ [new_row now lastrowid data],
                         medicines_seq := lastrowid\<rparr>
              in (case fetch_by_id lastrowid d' of
                    None \<Rightarrow> (Inl DatabaseError, d')
                  | Some row \<Rightarrow> (Inr row, d')))))"

definition update_quantity :: "stamp \<Rightarrow> int \<Rightarrow> int \<Rightarrow> int \<Rightarrow> db \<Rightarrow> (error + medicine) \<times> db" where
  "update_quantity now medicine_id' delta g d =
     (case get_by_id medicine_id' g d of
        None \<Rightarrow> (Inl DatabaseError, d)
      | Some row \<Rightarrow>
          (let new_quantity = quantity row + delta in
           if new_quantity < 0
           then (Inl (InsufficientStockError (quantity row) (abs delta)), d)
           else
             (let d' = d\<lparr>medicines :=
                          map (\<lambda>r. if id_m r = medicine_id'
                                    then r\<lparr>quantity := new_quantity, last_updated := now\<rparr>
                                    else r) (medicines d)\<rparr>
              in (case fetch_by_id medicine_id' d' of
                    None \<Rightarrow> (Inl DatabaseError, d')
                  | Some updated_row \<Rightarrow> (Inr updated_row, d')))))"

definition delete_medicine :: "int \<Rightarrow> int \<Rightarrow> db \<Rightarrow> bool \<times> db" where
  \<comment> \<open>\<^verbatim>\<open>ON DELETE CASCADE\<close> removes the ledger rows of the deleted medicine with it.\<close>
  "delete_medicine medicine_id' g d =
     (let gone = filter (\<lambda>r. id_m r = medicine_id' \<and> group_chat_id r = g) (medicines d);
          d' = d\<lparr>medicines :=
                   filter (\<lambda>r. \<not> (id_m r = medicine_id' \<and> group_chat_id r = g)) (medicines d),
                 activity_log :=
                   filter (\<lambda>a. medicine_id a \<notin> set (map id_m gone)) (activity_log d)\<rparr>
      in (0 < length gone, d'))"

text \<open>
  \<^verbatim>\<open>fuzz.ratio\<close> belongs to the fuzzywuzzy library and is an argument. The loop appends the
  rows that reach the threshold in scan order; \<^verbatim>\<open>list.sort(key, reverse=True)\<close> is stable.
\<close>

definition find_by_name_fuzzy ::
  "(string \<Rightarrow> string \<Rightarrow> int) \<Rightarrow> string \<Rightarrow> int \<Rightarrow> int \<Rightarrow> db \<Rightarrow> (medicine \<times> int) list" where
  "find_by_name_fuzzy ratio nm g threshold d =
     (let rows = filter (\<lambda>r. group_chat_id r = g) (medicines d);
          scored = map (\<lambda>m. (m, ratio (lower nm) (lower (name m)))) rows;
          matches = filter (\<lambda>x. threshold \<le> snd x) scored
      in sort_key (\<lambda>x. - snd x) matches)"

definition get_all :: "int \<Rightarrow> db \<Rightarrow> medicine list" where
  \<comment> \<open>\<^verbatim>\<open>ORDER BY name\<close> on a \<^verbatim>\<open>NOCASE\<close> column\<close>
  "get_all g d = sort_key (\<lambda>r. lower (name r)) (filter (\<lambda>r. group_chat_id r = g) (medicines d))"

definition get_low_stock :: "int \<Rightarrow> int \<Rightarrow> db \<Rightarrow> medicine list" where
  "get_low_stock g threshold d =
     sort_key quantity (filter (\<lambda>r. group_chat_id r = g \<and> quantity r < threshold) (medicines d))"

definition get_expiring_soon :: "stamp \<Rightarrow> int \<Rightarrow> db \<Rightarrow> medicine list" where
  \<comment> \<open>\<open>cutoff_date\<close> is the text of \<^verbatim>\<open>datetime.now() + timedelta(days=days)\<close>\<close>
  "get_expiring_soon cutoff_date g d =
     sort_key (\<lambda>r. case expiry_date r of None \<Rightarrow> [] | Some e \<Rightarrow> e)
       (filter (\<lambda>r. group_chat_id r = g \<and>
                     (case expiry_date r of None \<Rightarrow> False | Some e \<Rightarrow> e \<le> cutoff_date))
          (medicines d))"

subsection \<open>The activity ledger\<close>








subsection \<open>Resolving a name (src/commands.py)\<close>

datatype resolution =
    NotFound
  | Resolved medicine int
  | Ambiguous "(medicine \<times> int) list"

text \<open>What \<^verbatim>\<open>handle_use_medicine\<close> does with the matches before it touches the stock.\<close>

definition handle_use_medicine_resolution :: "(medicine \<times> int) list \<Rightarrow> resolution" where
  "handle_use_medicine_resolution matches =
     (case matches of
        [] \<Rightarrow> NotFound
      | m0 # _ \<Rightarrow>
          if length matches = 1 then Resolved (fst m0) (snd m0)
          else if snd m0 = 100 then Resolved (fst m0) (snd m0)
          else Ambiguous (take 5 matches))"

text \<open>The same step of \<^verbatim>\<open>handle_delete_medicine\<close>.\<close>

definition handle_delete_medicine_resolution :: "(medicine \<times> int) list \<Rightarrow> resolution" where
  "handle_delete_medicine_resolution matches =
     (case matches of
        [] \<Rightarrow> NotFound
      | m0 # _ \<Rightarrow>
          if 1 < length matches \<and> snd m0 < 100 then Ambiguous (take 5 matches)
          else Resolved (fst m0) (snd m0))"

text \<open>
  The table constraints: \<^verbatim>\<open>id\<close> is the primary key, handed out by the counter, and
  (group, name without case) is unique.
\<close>

definition db_ok :: "db \<Rightarrow> bool" where
  "db_ok d \<longleftrightarrow>
     distinct (map id_m (medicines d)) \<and>
     (\<forall>r \<in> set (medicines d). id_m r \<le> medicines_seq d) \<and>
     distinct (map (\<lambda>r. (group_chat_id r, lower (name r))) (medicines d))"

section \<open>Python strings\<close>

text \<open>
  The string methods the classifiers call, on ASCII text: \<^verbatim>\<open>isspace\<close> holds of tab to
  carriage return, of the four separators 28 to 31 and of the blank; \<^verbatim>\<open>int\<close> accepts blanks
  around, a sign, and single underscores between digits (the interpreter's limit on the
  number of digits is left out).
\<close>

definition is_space :: "char \<Rightarrow> bool" where
  "is_space c = (let n = (of_char c :: nat) in (9 \<le> n \<and> n \<le> 13) \<or> (28 \<le> n \<and> n \<le> 32))"

definition is_digit :: "char \<Rightarrow> bool" where
  "is_digit c = (let n = (of_char c :: nat) in 48 \<le> n \<and> n \<le> 57)"

definition is_lower :: "char \<Rightarrow> bool" where
  "is_lower c = (let n = (of_char c :: nat) in 97 \<le> n \<and> n \<le> 122)"

definition is_upper :: "char \<Rightarrow> bool" where
  "is_upper c = (let n = (of_char c :: nat) in 65 \<le> n \<and> n \<le> 90)"

definition is_word :: "char \<Rightarrow> bool" where
  "is_word c = (is_lower c \<or> is_upper c \<or> is_digit c \<or> c = CHR ''_'')"

definition upper_chr :: "char \<Rightarrow> char" where
  "upper_chr c = (if is_lower c then char_of ((of_char c :: nat) - 32) else c)"

definition strip :: "string \<Rightarrow> string" where
  "strip s = rev (dropWhile is_space (rev (dropWhile is_space s)))"

definition startswith :: "string \<Rightarrow> string \<Rightarrow> bool" where
  "startswith s p = (take (length p) s = p)"

fun contains :: "string \<Rightarrow> string \<Rightarrow> bool" where
  "contains [] sub = (sub = [])"
| "contains (c # cs) sub = (startswith (c # cs) sub \<or> contains cs sub)"

definition isdigit :: "string \<Rightarrow> bool" where
  "isdigit s = (s \<noteq> [] \<and> list_all is_digit s)"

fun title_from :: "bool \<Rightarrow> string \<Rightarrow> string" where
  "title_from previous_is_cased [] = []"
| "title_from previous_is_cased (c # cs) =
     (if is_lower c
      then (if previous_is_cased then c else upper_chr c) # title_from True cs
      else if is_upper c
      then (if previous_is_cased then lower_chr c else c) # title_from True cs
      else c # title_from False cs)"

definition title :: "string \<Rightarrow> string" where
  "title s = title_from False s"

fun underscores_ok :: "string \<Rightarrow> bool" where
  "underscores_ok [] = False"
| "underscores_ok [c] = is_digit c"
| "underscores_ok (c # d # cs) =
     (if is_digit c then underscores_ok (d # cs)
      else c = CHR ''_'' \<and> is_digit d \<and> underscores_ok (d # cs))"

definition digits_value :: "string \<Rightarrow> int" where
  "digits_value s = foldl (\<lambda>a c. 10 * a + (int (of_char c) - 48)) 0 s"

definition py_int :: "string \<Rightarrow> int option" where
  "py_int s =
     (let t = strip s;
          neg = startswith t ''-'';
          u = (if startswith t ''-'' \<or> startswith t ''+'' then tl t else t)
      in if u \<noteq> [] \<and> is_digit (hd u) \<and> underscores_ok u
         then Some ((if neg then - 1 else 1) * digits_value (filter is_digit u))
         else None)"

section \<open>Regular expressions\<close>

text \<open>
  The fragment of \<^verbatim>\<open>re\<close> the patterns are written in, matched as the backtracking engine
  does with \<^verbatim>\<open>IGNORECASE\<close>: \<open>rmatch\<close> lists every way to match from a position, the
  engine's first choice first (a greedy repetition longest first, an optional part taken
  before it is skipped, alternatives left to right), so the head of the list is the match
  \<^verbatim>\<open>re\<close> reports. A state is the position, the text left and the groups captured.
\<close>

datatype cls = Word | Digit | Space | Letter | OneOf string | Either cls cls

fun in_cls :: "cls \<Rightarrow> char \<Rightarrow> bool" where
  "in_cls Word c = is_word c"
| "in_cls Digit c = is_digit c"
| "in_cls Space c = is_space c"
| "in_cls Letter c = (is_lower c \<or> is_upper c)"
| "in_cls (OneOf s) c = (lower_chr c \<in> set (lower s))"
| "in_cls (Either a b) c = (in_cls a c \<or> in_cls b c)"

datatype rx =
    Bol
  | Lit string
  | Rep nat "nat option" cls
  | Opt rx
  | Alt rx rx
  | Seq rx rx
  | Grp nat rx

type_synonym caps = "(nat \<times> string) list"
type_synonym mstate = "nat \<times> string \<times> caps"

definition rep_ends :: "nat \<Rightarrow> nat option \<Rightarrow> cls \<Rightarrow> string \<Rightarrow> nat list" where
  "rep_ends lo hi c rest =
     (let run = length (takeWhile (in_cls c) rest);
          most = (case hi of None \<Rightarrow> run | Some h \<Rightarrow> min h run)
      in rev [lo ..< Suc most])"

fun rmatch :: "rx \<Rightarrow> mstate \<Rightarrow> mstate list" where
  "rmatch Bol (i, rest, cs) = (if i = 0 then [(i, rest, cs)] else [])"
| "rmatch (Lit p) (i, rest, cs) =
     (if lower (take (length p) rest) = lower p
      then [(i + length p, drop (length p) rest, cs)] else [])"
| "rmatch (Rep lo hi c) (i, rest, cs) =
     map (\<lambda>n. (i + n, drop n rest, cs)) (rep_ends lo hi c rest)"
| "rmatch (Opt r) st = rmatch r st @ [st]"
| "rmatch (Alt a b) st = rmatch a st @ rmatch b st"
| "rmatch (Seq a b) st = concat (map (rmatch b) (rmatch a st))"
| "rmatch (Grp g r) (i, rest, cs) =
     map (\<lambda>(j, rest', cs'). (j, rest', (g, take (j - i) rest) # cs')) (rmatch r (i, rest, cs))"

definition groups_of :: "nat \<Rightarrow> caps \<Rightarrow> string option list" where
  "groups_of n cs = map (map_of cs) [1 ..< Suc n]"

definition re_match :: "rx \<times> nat \<Rightarrow> string \<Rightarrow> string option list option" where
  "re_match p s =
     (case rmatch (fst p) (0, s, []) of
        [] \<Rightarrow> None
      | (j, rest, cs) # _ \<Rightarrow> Some (groups_of (snd p) cs))"

fun search_from :: "rx \<times> nat \<Rightarrow> nat \<Rightarrow> string \<Rightarrow> string option list option" where
  "search_from p i [] =
     (case rmatch (fst p) (i, [], []) of
        [] \<Rightarrow> None
      | (j, rest, cs) # _ \<Rightarrow> Some (groups_of (snd p) cs))"
| "search_from p i (c # s) =
     (case rmatch (fst p) (i, c # s, []) of
        [] \<Rightarrow> search_from p (Suc i) s
      | (j, rest, cs) # _ \<Rightarrow> Some (groups_of (snd p) cs))"

definition re_search :: "rx \<times> nat \<Rightarrow> string \<Rightarrow> string option list option" where
  "re_search p s = search_from p 0 s"

definition seqs :: "rx list \<Rightarrow> rx" where
  "seqs rs = foldr Seq (butlast rs) (last rs)"

definition alts :: "rx list \<Rightarrow> rx" where
  "alts rs = foldr Alt (butlast rs) (last rs)"

abbreviation rep1 :: "cls \<Rightarrow> rx" where "rep1 c \<equiv> Rep 1 None c"
abbreviation rep0 :: "cls \<Rightarrow> rx" where "rep0 c \<equiv> Rep 0 None c"

definition name_rx :: "nat \<Rightarrow> rx" where
  "name_rx g = Grp g (Seq (rep1 Word) (Opt (Seq (rep1 Space) (rep1 Word))))"


definition opt_chr :: "string \<Rightarrow> rx" where
  "opt_chr s = Rep 0 (Some 1) (OneOf s)"

definition times :: "nat \<Rightarrow> cls \<Rightarrow> rx" where
  "times n c = Rep n (Some n) c"

section \<open>The classifiers (src/parsers.py)\<close>

text \<open>
  \<^verbatim>\<open>ParsedCommand\<close>; its confidence is only ever 1.0 or 0.0, kept as an integer. The store's
  records have fields of the same names, so four of the fields here carry a suffix.
\<close>

record parsed_command =
  command_type :: string
  medicine_name :: "string option"
  quantity_p :: "int option"
  unit_p :: string
  expiry_date_p :: "stamp option"
  location_p :: "string option"
  confidence :: int
  raw_text :: string

definition ParsedCommand :: "string \<Rightarrow> parsed_command" where
  "ParsedCommand ct =
     \<lparr>command_type = ct, medicine_name = None, quantity_p = None, unit_p = ''tablets'',
      expiry_date_p = None, location_p = None, confidence = 1, raw_text = []\<rparr>"

definition py_index :: "'a list \<Rightarrow> nat \<Rightarrow> error + 'a" where
  "py_index xs i = (if i < length xs then Inr (xs ! i) else Inl IndexError)"

definition int_arg :: "string option \<Rightarrow> error + int" where
  "int_arg g = (case g of None \<Rightarrow> Inl TypeError
                | Some s \<Rightarrow> (case py_int s of None \<Rightarrow> Inl ValueError | Some n \<Rightarrow> Inr n))"

definition str_arg :: "string option \<Rightarrow> error + string" where
  "str_arg g = (case g of None \<Rightarrow> Inl AttributeError | Some s \<Rightarrow> Inr s)"

definition truthy :: "string option \<Rightarrow> bool" where
  "truthy g = (case g of None \<Rightarrow> False | Some s \<Rightarrow> s \<noteq> [])"

definition bind :: "error + 'a \<Rightarrow> ('a \<Rightarrow> error + 'b) \<Rightarrow> error + 'b" where
  "bind m f = (case m of Inl e \<Rightarrow> Inl e | Inr x \<Rightarrow> f x)"

definition add_verb :: rx where
  "add_verb = alts [Lit ''bought'', Lit ''got'', Seq (Lit ''purchase'') (opt_chr ''d''),
                    Seq (Lit ''add'') (Opt (Lit ''ed''))]"

definition ADD_PATTERNS :: "(rx \<times> nat) list" where
  "ADD_PATTERNS =
     [(seqs [Bol, Lit ''+'', rep0 Space, name_rx 1, rep1 Space, Grp 2 (rep1 Digit)], 2),
      (seqs [add_verb, rep1 Space, name_rx 1, opt_chr '','', rep0 Space, Grp 2 (rep1 Digit),
             Opt (Seq (rep1 Space) (Grp 3 (rep1 Word)))], 3),
      (seqs [Bol, Grp 1 (rep1 Digit), rep1 Space, name_rx 2], 2),
      (seqs [add_verb, rep1 Space, name_rx 1], 1)]"

definition add_gate :: "rx \<times> nat" where
  "add_gate = (seqs [Bol, rep1 Digit, rep1 Space, rep1 Word], 0)"

definition normalize_unit :: "string \<Rightarrow> string" where
  "normalize_unit u =
     (let unit_lower = strip (lower u) in
      if unit_lower \<in> set [''tablet'', ''tablets'', ''tab'', ''tabs''] then ''tablets''
      else if unit_lower \<in> set [''capsule'', ''capsules'', ''cap'', ''caps''] then ''capsules''
      else if unit_lower \<in> set [''ml'', ''milliliter'', ''milliliters''] then ''ml''
      else if unit_lower \<in> set [''mg'', ''milligram'', ''milligrams''] then ''mg''
      else if unit_lower \<in> set [''strip'', ''strips''] then ''strips''
      else if unit_lower \<in> set [''bottle'', ''bottles''] then ''bottles''
      else if unit_lower \<in> set [''piece'', ''pieces'', ''pcs'', ''pc''] then ''pieces''
      else ''tablets'')"

definition month_year :: rx where
  "month_year = Grp 1 (seqs [rep1 Letter, rep1 Space, times 4 Digit])"

definition expiry_patterns :: "(rx \<times> nat) list" where
  "expiry_patterns =
     [(seqs [Lit ''expire'', opt_chr ''sd'', rep1 Space, month_year], 1),
      (seqs [Lit ''expiry'', rep1 (Either (OneOf '':'') Space), month_year], 1),
      (seqs [Lit ''exp'', rep1 (Either (OneOf '':'') Space),
             Grp 1 (seqs [Rep 1 (Some 2) Digit, times 1 (OneOf ''/-''), times 4 Digit])], 1),
      (Grp 1 (seqs [times 4 Digit, Lit ''-'', times 2 Digit]), 1)]"

text \<open>
  \<^verbatim>\<open>date_parser.parse\<close> is dateutil's and an argument: \<open>None\<close> stands for its ValueError
  (ParserError), which the loop catches. Group 1 takes part in every match of these
  patterns.
\<close>

fun extract_expiry_loop :: "(string \<Rightarrow> stamp option) \<Rightarrow> string \<Rightarrow> (rx \<times> nat) list \<Rightarrow> stamp option" where
  "extract_expiry_loop date_parse text [] = None"
| "extract_expiry_loop date_parse text (pattern # patterns) =
     (case re_search pattern text of
        Some (Some date_str # _) \<Rightarrow>
          (case date_parse date_str of
             Some parsed_date \<Rightarrow> Some parsed_date
           | None \<Rightarrow> extract_expiry_loop date_parse text patterns)
      | _ \<Rightarrow> extract_expiry_loop date_parse text patterns)"

definition extract_expiry_date :: "(string \<Rightarrow> stamp option) \<Rightarrow> string \<Rightarrow> stamp option" where
  "extract_expiry_date date_parse text = extract_expiry_loop date_parse text expiry_patterns"

definition location_pattern :: "rx \<times> nat" where
  "location_pattern =
     (seqs [alts [Lit ''in'', Lit ''at'', Seq (Lit ''location'') (rep1 (Either (OneOf '':'') Space))],
            rep1 Space,
            Grp 1 (Seq (rep1 (Either Letter Space))
                     (alts [Lit ''drawer'', Lit ''cabinet'', Lit ''room'', Lit ''shelf'', Lit ''box'']))], 1)"

definition extract_location :: "string \<Rightarrow> string option" where
  "extract_location text =
     (case re_search location_pattern text of
        Some (Some l # _) \<Rightarrow> Some (title (strip l))
      | _ \<Rightarrow> None)"

text \<open>The body of the loop of \<^verbatim>\<open>AddCommandParser.parse\<close> once a pattern has matched.\<close>

definition add_fields :: "string \<Rightarrow> string option list \<Rightarrow> error + (string option \<times> int option \<times> string)" where
  "add_fields text_lower groups =
     (if startswith text_lower ''+''
      then bind (py_index groups 0) (\<lambda>medicine_name.
           bind (py_index groups 1) (\<lambda>g1.
           bind (int_arg g1) (\<lambda>quantity.
           Inr (medicine_name, Some quantity, ''tablets''))))
      else bind (py_index text_lower 0) (\<lambda>c.
      if is_digit c
      then bind (py_index groups 0) (\<lambda>g0.
           bind (int_arg g0) (\<lambda>quantity.
           bind (py_index groups 1) (\<lambda>medicine_name.
           Inr (medicine_name, Some quantity, ''tablets''))))
      else if 2 \<le> length groups \<and> truthy (groups ! 1)
      then bind (py_index groups 0) (\<lambda>medicine_name.
           Inr (medicine_name,
                (case groups ! 1 of None \<Rightarrow> None | Some s \<Rightarrow> py_int s),
                (if 2 < length groups \<and> truthy (groups ! 2)
                 then (case groups ! 2 of None \<Rightarrow> ''tablets'' | Some u \<Rightarrow> u)
                 else ''tablets'')))
      else bind (py_index groups 0) (\<lambda>medicine_name.
           Inr (medicine_name, None, ''tablets''))))"

fun add_loop :: "(string \<Rightarrow> stamp option) \<Rightarrow> string \<Rightarrow> string \<Rightarrow> (rx \<times> nat) list
                 \<Rightarrow> error + parsed_command option" where
  "add_loop date_parse text text_lower [] = Inr None"
| "add_loop date_parse text text_lower (pattern # patterns) =
     (case re_search pattern text_lower of
        None \<Rightarrow> add_loop date_parse text text_lower patterns
      | Some groups \<Rightarrow>
          bind (add_fields text_lower groups) (\<lambda>(medicine_name, quantity, unit).
          bind (str_arg medicine_name) (\<lambda>nm.
          Inr (Some ((ParsedCommand ''add'')
                 \<lparr>medicine_name := Some (title (strip nm)),
                  quantity_p := quantity,
                  unit_p := normalize_unit unit,
                  expiry_date_p := extract_expiry_date date_parse text,
                  location_p := extract_location text\<rparr>)))))"

definition AddCommandParser_parse ::
  "(string \<Rightarrow> stamp option) \<Rightarrow> string \<Rightarrow> error + parsed_command option" where
  "AddCommandParser_parse date_parse text =
     (let text_lower = strip (lower text) in
      if \<not> (startswith text_lower ''+''
             \<or> list_ex (contains text_lower) [''bought'', ''got'', ''purchase'', ''add'']
             \<or> re_match add_gate text_lower \<noteq> None)
      then Inr None
      else add_loop date_parse text text_lower ADD_PATTERNS)"

definition use_verb :: rx where
  "use_verb = alts [Lit ''used'', Lit ''took'', Seq (Lit ''consume'') (opt_chr ''d'')]"

definition USE_PATTERNS :: "(rx \<times> nat) list" where
  "USE_PATTERNS =
     [(seqs [Bol, Lit ''-'', rep0 Space, name_rx 1, rep1 Space, Grp 2 (rep1 Digit)], 2),
      (seqs [use_verb, rep1 Space, Grp 1 (rep1 Digit), rep1 Space, name_rx 2], 2),
      (seqs [use_verb, rep1 Space, name_rx 1, opt_chr '','', rep0 Space, Grp 2 (rep1 Digit)], 2),
      (seqs [use_verb, rep1 Space, Opt (Seq (Lit ''some'') (rep1 Space)), name_rx 1], 1)]"

definition use_fields :: "string \<Rightarrow> string option list \<Rightarrow> error + (string option \<times> int)" where
  "use_fields text_lower groups =
     (if startswith text_lower ''-''
      then bind (py_index groups 0) (\<lambda>medicine_name.
           bind (py_index groups 1) (\<lambda>g1.
           bind (int_arg g1) (\<lambda>quantity.
           Inr (medicine_name, quantity))))
      else bind (py_index groups 0) (\<lambda>g0.
           bind (str_arg g0) (\<lambda>s0.
           if isdigit s0
           then bind (int_arg g0) (\<lambda>quantity.
                bind (py_index groups 1) (\<lambda>medicine_name.
                Inr (medicine_name, quantity)))
           else if 2 \<le> length groups \<and> truthy (groups ! 1)
           then Inr (g0, (case groups ! 1 of None \<Rightarrow> 1
                          | Some s \<Rightarrow> (case py_int s of None \<Rightarrow> 1 | Some n \<Rightarrow> n)))
           else Inr (g0, 1))))"

fun use_loop :: "string \<Rightarrow> (rx \<times> nat) list \<Rightarrow> error + parsed_command option" where
  "use_loop text_lower [] = Inr None"
| "use_loop text_lower (pattern # patterns) =
     (case re_search pattern text_lower of
        None \<Rightarrow> use_loop text_lower patterns
      | Some groups \<Rightarrow>
          bind (use_fields text_lower groups) (\<lambda>(medicine_name, quantity).
          bind (str_arg medicine_name) (\<lambda>nm.
          Inr (Some ((ParsedCommand ''use'')
                 \<lparr>medicine_name := Some (title (strip nm)), quantity_p := Some quantity\<rparr>)))))"

definition UseCommandParser_parse :: "string \<Rightarrow> error + parsed_command option" where
  "UseCommandParser_parse text =
     (let text_lower = strip (lower text) in
      if \<not> (startswith text_lower ''-''
             \<or> list_ex (contains text_lower) [''used'', ''took'', ''consume''])
      then Inr None
      else use_loop text_lower USE_PATTERNS)"

definition SEARCH_PATTERNS :: "(rx \<times> nat) list" where
  "SEARCH_PATTERNS =
     [(seqs [Bol, Lit ''?'', rep0 Space, name_rx 1], 1),
      (seqs [Lit ''do'', rep1 Space, Lit ''we'', rep1 Space, Lit ''have'', rep1 Space, name_rx 1], 1),
      (seqs [alts [Lit ''check'', Lit ''search'', Lit ''find'', Lit ''show''], rep1 Space, name_rx 1], 1),
      (seqs [Lit ''have'', rep1 Space, Opt (Seq (Lit ''we'') (rep1 Space)),
             Opt (Seq (Lit ''got'') (rep1 Space)), name_rx 1], 1)]"

fun search_loop :: "string \<Rightarrow> (rx \<times> nat) list \<Rightarrow> error + parsed_command option" where
  "search_loop text_lower [] = Inr None"
| "search_loop text_lower (pattern # patterns) =
     (case re_search pattern text_lower of
        None \<Rightarrow> search_loop text_lower patterns
      | Some groups \<Rightarrow>
          bind (py_index groups 0) (\<lambda>medicine_name.
          bind (str_arg medicine_name) (\<lambda>nm.
          Inr (Some ((ParsedCommand ''search'')\<lparr>medicine_name := Some (title (strip nm))\<rparr>)))))"

definition SearchCommandParser_parse :: "string \<Rightarrow> error + parsed_command option" where
  "SearchCommandParser_parse text =
     (let text_lower = strip (lower text) in
      if \<not> (startswith text_lower ''?''
             \<or> list_ex (contains text_lower) [''have'', ''check'', ''search'', ''find'', ''show''])
      then Inr None
      else search_loop text_lower SEARCH_PATTERNS)"

definition LIST_KEYWORDS :: "string list" where
  "LIST_KEYWORDS =
     [''?all'', ''list'', ''show all'', ''show everything'', ''list all'', ''list medicines'',
      ''show medicines'', ''what do we have'', ''inventory'']"

definition ListCommandParser_parse :: "string \<Rightarrow> parsed_command option" where
  "ListCommandParser_parse text =
     (let text_lower = strip (lower text) in
      if list_ex (\<lambda>keyword. text_lower = keyword \<or> startswith text_lower keyword) LIST_KEYWORDS
      then Some (ParsedCommand ''list'')
      else None)"

definition CommandParser_parse :: "(string \<Rightarrow> stamp option) \<Rightarrow> string \<Rightarrow> error + parsed_command" where
  "CommandParser_parse date_parse text0 =
     (let text = strip text0 in
      case ListCommandParser_parse text of
        Some result \<Rightarrow> Inr (result\<lparr>raw_text := text\<rparr>)
      | None \<Rightarrow>
         (case AddCommandParser_parse date_parse text of
            Inl e \<Rightarrow> Inl e
          | Inr (Some result) \<Rightarrow> Inr (result\<lparr>raw_text := text\<rparr>)
          | Inr None \<Rightarrow>
             (case UseCommandParser_parse text of
                Inl e \<Rightarrow> Inl e
              | Inr (Some result) \<Rightarrow> Inr (result\<lparr>raw_text := text\<rparr>)
              | Inr None \<Rightarrow>
                 (case SearchCommandParser_parse text of
                    Inl e \<Rightarrow> Inl e
                  | Inr (Some result) \<Rightarrow> Inr (result\<lparr>raw_text := text\<rparr>)
                  | Inr None \<Rightarrow> Inr ((ParsedCommand ''unknown'')\<lparr>raw_text := text, confidence := 0\<rparr>)))))"

section \<open>Sample data (tests/conftest.py)\<close>

definition sample_medicine_data :: medicine_data where
  "sample_medicine_data =
     \<lparr>name = ''Napa'', quantity = 10, unit = ''tablets'', expiry_date = None, location = None,
      added_by_user_id = 123456, added_by_username = ''TestUser'', group_chat_id = 789012\<rparr>"

definition sample_refill :: medicine_data where
  "sample_refill =
     \<lparr>name = ''NAPA'', quantity = 5, unit = ''tablets'',
      expiry_date = Some ''2027-12-01 00:00:00'', location = None,
      added_by_user_id = 123456, added_by_username = ''TestUser'', group_chat_id = 789012\<rparr>"

definition sample_row :: medicine where
  "sample_row = new_row ''2026-01-23 00:00:00'' 1 sample_medicine_data"

definition sample_db :: db where
  "sample_db = snd (add_medicine ''2026-01-23 00:00:00'' sample_medicine_data empty_db)"


text \<open>Another scorer: 100 for equal strings, 80 when one is the start of the other.\<close>

definition prefix_ratio :: "string \<Rightarrow> string \<Rightarrow> int" where
  "prefix_ratio a b =
     (if a = b then 100
      else if take (length a) b = a \<or> take (length b) a = b then 80
      else 0)"

text \<open>A second medicine (\<^verbatim>\<open>sample_medicines_list\<close>) and the three ledger rows of \<^verbatim>\<open>test_get_stats\<close>.\<close>

definition sample_extra :: medicine_data where
  "sample_extra =
     \<lparr>name = ''Napa Extra'', quantity = 5, unit = ''tablets'', expiry_date = None, location = None,
      added_by_user_id = 123456, added_by_username = ''TestUser'', group_chat_id = 789012\<rparr>"

definition extra_row :: medicine where
  "extra_row = new_row ''2026-01-23 00:00:01'' 2 sample_extra"

definition cabinet_db :: db where
  "cabinet_db = snd (add_medicine ''2026-01-23 00:00:01'' sample_extra sample_db)"


text \<open>A date parser that rejects every text.\<close>

definition no_dates :: "string \<Rightarrow> stamp option" where
  "no_dates s = None"

section \<open>Properties of the store\<close>

lemma find_id_map_update:
  assumes "distinct (map id_m rs)" and "r \<in> set rs" and "\<And>x. id_m (f x) = id_m x"
  shows "find (\<lambda>x. id_m x = id_m r) (map (\<lambda>x. if id_m x = id_m r then f x else x) rs) = Some (f r)"
  using assms
proof (induction rs)
  case Nil
  then show ?case by simp
next
  case (Cons a rs)
  show ?case
  proof (cases "a = r")
    case True
    then show ?thesis using Cons.prems(3) by simp
  next
    case False
    with Cons.prems have "r \<in> set rs" and "id_m a \<noteq> id_m r"
      by (auto simp: image_iff)
    with Cons show ?thesis by simp
  qed
qed

lemma find_Some_mem: "find P xs = Some x \<Longrightarrow> x \<in> set xs \<and> P x"
  by (induction xs) (auto split: if_splits)



lemma find_None_iff_not_ex: "find P xs = None \<longleftrightarrow> (\<forall>x \<in> set xs. \<not> P x)"
  by (induction xs) auto

lemma find_key_unique:
  assumes "distinct (map k rs)" and "r \<in> set rs"
  shows "find (\<lambda>x. k x = k r) rs = Some r"
  using assms by (induction rs) (auto simp: image_iff)

lemma upsert_row_fields [simp]:
  "id_m (upsert_row now q e l r) = id_m r"
  "name (upsert_row now q e l r) = name r"
  "group_chat_id (upsert_row now q e l r) = group_chat_id r"
  "quantity (upsert_row now q e l r) = q"
  "expiry_date (upsert_row now q e l r) = coalesce e (expiry_date r)"
  "location (upsert_row now q e l r) = coalesce l (location r)"
  by (simp_all add: upsert_row_def)

lemma new_row_fields [simp]:
  "id_m (new_row now i data) = i"
  "name (new_row now i data) = name data"
  "group_chat_id (new_row now i data) = group_chat_id data"
  "quantity (new_row now i data) = quantity data"
  "expiry_date (new_row now i data) = expiry_date data"
  "location (new_row now i data) = location data"
  by (simp_all add: new_row_def)

lemma map_update_keys:
  assumes "\<And>x. k (f x) = k x"
  shows "map k (map (\<lambda>x. if c x then f x else x) rs) = map k rs"
  using assms by (induction rs) auto

lemma find_append:
  "find P (xs @ ys) = (case find P xs of None \<Rightarrow> find P ys | Some x \<Rightarrow> Some x)"
  by (induction xs) auto

lemma find_map_invariant:
  assumes "\<And>x. P (f x) = P x"
  shows "find P (map f xs) = map_option f (find P xs)"
  using assms by (induction xs) auto

lemma db_ok_medicines_update:
  assumes "distinct (map id_m rs)" and "\<forall>r \<in> set rs. id_m r \<le> medicines_seq d"
    and "distinct (map (\<lambda>r. (group_chat_id r, lower (name r))) rs)"
  shows "db_ok (d\<lparr>medicines := rs\<rparr>)"
  using assms by (simp add: db_ok_def)

lemma add_medicine_existing:
  fixes now :: stamp
  assumes ok: "db_ok d"
    and ex: "find_by_exact_name (name data) (group_chat_id data) d = Some existing"
  defines "row' \<equiv> upsert_row now (quantity existing + quantity data) (expiry_date data) (location data) existing"
  shows "add_medicine now data d =
           (Inr row', d\<lparr>medicines := map (\<lambda>r. if id_m r = id_m existing then row' else r) (medicines d)\<rparr>)"
    and "db_ok (snd (add_medicine now data d))"
    and "find_by_exact_name (name data) (group_chat_id data) (snd (add_medicine now data d)) = Some row'"
proof -
  let ?f = "upsert_row now (quantity existing + quantity data) (expiry_date data) (location data)"
  let ?rows = "map (\<lambda>r. if id_m r = id_m existing then ?f r else r) (medicines d)"
  from ex have mem: "existing \<in> set (medicines d)"
    and P: "lower (name existing) = lower (name data)" "group_chat_id existing = group_chat_id data"
    using find_Some_mem[of _ "medicines d" existing] by (auto simp: find_by_exact_name_def)
  from ok have dist: "distinct (map id_m (medicines d))" by (simp add: db_ok_def)
  have uniq: "\<And>r. r \<in> set (medicines d) \<Longrightarrow> id_m r = id_m existing \<Longrightarrow> r = existing"
    using dist mem by (metis distinct_map inj_onD)
  have same: "?rows = map (\<lambda>r. if id_m r = id_m existing then row' else r) (medicines d)"
    unfolding row'_def by (rule map_cong) (auto dest: uniq)
  have fetch: "find (\<lambda>x. id_m x = id_m existing) ?rows = Some row'"
    unfolding row'_def using find_id_map_update[OF dist mem, of ?f] by simp
  show eq: "add_medicine now data d =
           (Inr row', d\<lparr>medicines := map (\<lambda>r. if id_m r = id_m existing then row' else r) (medicines d)\<rparr>)"
    using ex by (simp add: add_medicine_def Let_def fetch_by_id_def fetch same[symmetric])
  have k1: "map id_m ?rows = map id_m (medicines d)"
    by (rule map_update_keys) simp
  have k2: "map (\<lambda>r. (group_chat_id r, lower (name r))) ?rows
              = map (\<lambda>r. (group_chat_id r, lower (name r))) (medicines d)"
    by (rule map_update_keys) simp
  have ids: "\<forall>r \<in> set ?rows. id_m r \<le> medicines_seq d"
    using ok by (auto simp: db_ok_def)
  have d1: "distinct (map id_m ?rows)" unfolding k1 by (rule dist)
  have d2: "distinct (map (\<lambda>r. (group_chat_id r, lower (name r))) ?rows)"
    unfolding k2 using ok by (simp add: db_ok_def)
  have "db_ok (d\<lparr>medicines := ?rows\<rparr>)"
    by (rule db_ok_medicines_update[OF d1 ids d2])
  then show "db_ok (snd (add_medicine now data d))"
    unfolding eq same[symmetric] by simp
  have "find (\<lambda>r. lower (name r) = lower (name data) \<and> group_chat_id r = group_chat_id data) ?rows
        = map_option (\<lambda>r. if id_m r = id_m existing then ?f r else r)
            (find (\<lambda>r. lower (name r) = lower (name data) \<and> group_chat_id r = group_chat_id data) (medicines d))"
    by (rule find_map_invariant) simp
  then show "find_by_exact_name (name data) (group_chat_id data) (snd (add_medicine now data d)) = Some row'"
    using ex unfolding eq same[symmetric]
    by (simp add: find_by_exact_name_def row'_def)
qed

lemma add_medicine_new:
  fixes now :: stamp
  assumes ok: "db_ok d"
    and ex: "find_by_exact_name (name data) (group_chat_id data) d = None"
  defines "row' \<equiv> new_row now (medicines_seq d + 1) data"
  shows "add_medicine now data d =
           (Inr row', d\<lparr>medicines := medicines d @ [row'], medicines_seq := medicines_seq d + 1\<rparr>)"
    and "db_ok (snd (add_medicine now data d))"
    and "find_by_exact_name (name data) (group_chat_id data) (snd (add_medicine now data d)) = Some row'"
proof -
  from ex have none: "\<forall>r \<in> set (medicines d). \<not> (lower (name r) = lower (name data) \<and> group_chat_id r = group_chat_id data)"
    by (simp add: find_by_exact_name_def find_None_iff_not_ex)
  from ok have ids: "\<forall>r \<in> set (medicines d). id_m r \<le> medicines_seq d" by (simp add: db_ok_def)
  then have fresh: "find (\<lambda>r. id_m r = medicines_seq d + 1) (medicines d) = None"
    by (auto simp: find_None_iff_not_ex)
  show eq: "add_medicine now data d =
           (Inr row', d\<lparr>medicines := medicines d @ [row'], medicines_seq := medicines_seq d + 1\<rparr>)"
    using ex none fresh by (auto simp: add_medicine_def Let_def fetch_by_id_def find_append row'_def)
  show "db_ok (snd (add_medicine now data d))"
    using ok none ids unfolding eq by (fastforce simp: db_ok_def row'_def)
  show "find_by_exact_name (name data) (group_chat_id data) (snd (add_medicine now data d)) = Some row'"
    using ex unfolding eq by (simp add: find_by_exact_name_def find_append row'_def)
qed



lemma filter_map_other:
  assumes "\<And>r. r \<in> set rs \<Longrightarrow> (P (f r) \<longleftrightarrow> P r) \<and> (P r \<longrightarrow> f r = r)"
  shows "filter P (map f rs) = filter P rs"
  using assms by (induction rs) auto

lemma id_unique:
  assumes "db_ok d" and "r \<in> set (medicines d)" and "r' \<in> set (medicines d)" and "id_m r = id_m r'"
  shows "r = r'"
proof -
  have "inj_on id_m (set (medicines d))"
    using assms(1) by (simp add: db_ok_def distinct_map)
  then show ?thesis using assms(4) assms(2) assms(3) by (rule inj_onD)
qed

lemma iso_find_exact:
  "find_by_exact_name nm g d = Some m \<Longrightarrow> m \<in> set (medicines d) \<and> group_chat_id m = g"
  unfolding find_by_exact_name_def by (drule find_Some_mem) simp

lemma iso_find_exact_none:
  "\<forall>r \<in> set (medicines d). lower (name r) = lower nm \<longrightarrow> group_chat_id r \<noteq> g
     \<Longrightarrow> find_by_exact_name nm g d = None"
  by (auto simp: find_by_exact_name_def find_None_iff_not_ex)

lemma iso_get_by_id:
  "get_by_id i g d = Some m \<Longrightarrow> m \<in> set (medicines d) \<and> group_chat_id m = g \<and> id_m m = i"
  unfolding get_by_id_def by (drule find_Some_mem) simp

lemma iso_fuzzy:
  "x \<in> set (find_by_name_fuzzy ratio nm g th d)
     \<Longrightarrow> fst x \<in> set (medicines d) \<and> group_chat_id (fst x) = g"
  by (auto simp: find_by_name_fuzzy_def Let_def)

lemma iso_get_all: "m \<in> set (get_all g d) \<Longrightarrow> m \<in> set (medicines d) \<and> group_chat_id m = g"
  by (auto simp: get_all_def)

lemma iso_low_stock:
  "m \<in> set (get_low_stock g th d) \<Longrightarrow> m \<in> set (medicines d) \<and> group_chat_id m = g"
  by (auto simp: get_low_stock_def)

lemma iso_expiring:
  "m \<in> set (get_expiring_soon c g d) \<Longrightarrow> m \<in> set (medicines d) \<and> group_chat_id m = g"
  by (auto simp: get_expiring_soon_def)

lemma update_quantity_rows:
  "medicines (snd (update_quantity now i delta g d)) = medicines d \<or>
   (\<exists>row. get_by_id i g d = Some row \<and>
      medicines (snd (update_quantity now i delta g d))
        = map (\<lambda>r. if id_m r = i then r\<lparr>quantity := quantity row + delta, last_updated := now\<rparr> else r)
            (medicines d))"
  by (simp add: update_quantity_def Let_def split: option.splits)

lemma iso_update_quantity:
  assumes ok: "db_ok d"
  shows "filter (\<lambda>r. group_chat_id r \<noteq> g) (medicines (snd (update_quantity now i delta g d)))
           = filter (\<lambda>r. group_chat_id r \<noteq> g) (medicines d)"
proof -
  from update_quantity_rows[of now i delta g d] show ?thesis
  proof
    assume "medicines (snd (update_quantity now i delta g d)) = medicines d"
    then show ?thesis by simp
  next
    assume "\<exists>row. get_by_id i g d = Some row \<and>
      medicines (snd (update_quantity now i delta g d))
        = map (\<lambda>r. if id_m r = i then r\<lparr>quantity := quantity row + delta, last_updated := now\<rparr> else r)
            (medicines d)"
    then obtain row where row: "get_by_id i g d = Some row"
      and rows: "medicines (snd (update_quantity now i delta g d))
        = map (\<lambda>r. if id_m r = i then r\<lparr>quantity := quantity row + delta, last_updated := now\<rparr> else r)
            (medicines d)"
      by (elim exE conjE)
    from iso_get_by_id[OF row] have mem: "row \<in> set (medicines d)" and gr: "group_chat_id row = g"
      and idr: "id_m row = i"
      by simp_all
    have "group_chat_id r = g" if "r \<in> set (medicines d)" "id_m r = i" for r
      using id_unique[OF ok that(1) mem] that(2) idr gr by simp
    then show ?thesis unfolding rows
      by (intro filter_map_other) auto
  qed
qed

lemma update_quantity_eq:
  fixes now :: stamp and delta :: int
  assumes ok: "db_ok d" and row: "get_by_id i g d = Some row"
  defines "row' \<equiv> row\<lparr>quantity := quantity row + delta, last_updated := now\<rparr>"
  shows "update_quantity now i delta g d =
           (if quantity row + delta < 0
            then (Inl (InsufficientStockError (quantity row) \<bar>delta\<bar>), d)
            else (Inr row', d\<lparr>medicines := map (\<lambda>r. if id_m r = i then row' else r) (medicines d)\<rparr>))"
proof -
  from iso_get_by_id[OF row] have mem: "row \<in> set (medicines d)" and idr: "id_m row = i"
    by simp_all
  from ok have dist: "distinct (map id_m (medicines d))" by (simp add: db_ok_def)
  let ?f = "\<lambda>r::medicine. r\<lparr>quantity := quantity row + delta, last_updated := now\<rparr>"
  let ?rows = "map (\<lambda>r. if id_m r = i then ?f r else r) (medicines d)"
  have fetch: "find (\<lambda>x. id_m x = i) ?rows = Some (?f row)"
    using find_id_map_update[OF dist mem, of ?f] idr by simp
  have uniq: "r = row" if "r \<in> set (medicines d)" "id_m r = i" for r
    using id_unique[OF ok that(1) mem] that(2) idr by simp
  have same: "?rows = map (\<lambda>r. if id_m r = i then ?f row else r) (medicines d)"
    by (rule map_cong) (auto dest: uniq)
  have "update_quantity now i delta g d =
           (if quantity row + delta < 0
            then (Inl (InsufficientStockError (quantity row) \<bar>delta\<bar>), d)
            else (Inr (?f row), d\<lparr>medicines := ?rows\<rparr>))"
    using row by (simp add: update_quantity_def Let_def fetch_by_id_def fetch)
  then show ?thesis unfolding row'_def same .
qed

lemma iso_update_quantity_result:
  assumes "db_ok d" and "fst (update_quantity now i delta g d) = Inr m"
  shows "group_chat_id m = g"
proof (cases "get_by_id i g d")
  case None
  with assms(2) show ?thesis by (simp add: update_quantity_def)
next
  case (Some row)
  from iso_get_by_id[OF Some] have "group_chat_id row = g" by simp
  with assms(2) update_quantity_eq[OF assms(1) Some, where delta = delta and now = now] show ?thesis
    by (auto split: if_splits)
qed

lemma find_filter:
  assumes "\<And>x. P x \<Longrightarrow> Q x"
  shows "find P (filter Q xs) = find P xs"
  using assms by (induction xs) auto

lemma iso_add_medicine:
  assumes ok: "db_ok d"
  shows "filter (\<lambda>r. group_chat_id r \<noteq> group_chat_id data) (medicines (snd (add_medicine now data d)))
           = filter (\<lambda>r. group_chat_id r \<noteq> group_chat_id data) (medicines d)"
proof (cases "find_by_exact_name (name data) (group_chat_id data) d")
  case None
  from add_medicine_new(1)[OF ok None, of now] show ?thesis by simp
next
  case (Some existing)
  from iso_find_exact[OF Some] have mem: "existing \<in> set (medicines d)"
    and gr: "group_chat_id existing = group_chat_id data" by simp_all
  have "group_chat_id r = group_chat_id data" if "r \<in> set (medicines d)" "id_m r = id_m existing" for r
    using id_unique[OF ok that(1) mem that(2)] gr by simp
  then have "filter (\<lambda>r. group_chat_id r \<noteq> group_chat_id data)
               (map (\<lambda>r. if id_m r = id_m existing
                         then upsert_row now (quantity existing + quantity data) (expiry_date data) (location data) existing
                         else r) (medicines d))
             = filter (\<lambda>r. group_chat_id r \<noteq> group_chat_id data) (medicines d)"
    using gr by (intro filter_map_other) auto
  with add_medicine_existing(1)[OF ok Some, of now] show ?thesis by simp
qed

lemma iso_add_medicine_find:
  assumes ok: "db_ok d" and other: "group_chat_id data \<noteq> g"
  shows "find_by_exact_name nm g (snd (add_medicine now data d)) = find_by_exact_name nm g d"
proof -
  let ?P = "\<lambda>r. lower (name r) = lower nm \<and> group_chat_id r = g"
  let ?Q = "\<lambda>r. group_chat_id r \<noteq> group_chat_id data"
  have "find ?P (medicines (snd (add_medicine now data d)))
          = find ?P (filter ?Q (medicines (snd (add_medicine now data d))))"
    using other by (intro find_filter[symmetric]) auto
  also have "\<dots> = find ?P (filter ?Q (medicines d))"
    by (simp only: iso_add_medicine[OF ok])
  also have "\<dots> = find ?P (medicines d)"
    using other by (intro find_filter) auto
  finally show ?thesis by (simp add: find_by_exact_name_def)
qed

lemma iso_delete:
  "filter (\<lambda>r. group_chat_id r \<noteq> g) (medicines (snd (delete_medicine i g d)))
     = filter (\<lambda>r. group_chat_id r \<noteq> g) (medicines d)"
proof -
  have "filter (\<lambda>r. group_chat_id r \<noteq> g) (filter (\<lambda>r. \<not> (id_m r = i \<and> group_chat_id r = g)) rs)
          = filter (\<lambda>r. group_chat_id r \<noteq> g) rs" for rs :: "medicine list"
    by (induction rs) auto
  then show ?thesis by (simp add: delete_medicine_def Let_def)
qed


text \<open>
  C4: the store is partitioned by group. A name stored only under other groups is not
  found under group \<open>gA\<close>, and adding under another group does not change that; whatever
  \<open>find_by_exact_name\<close>, \<open>get_by_id\<close>, \<open>find_by_name_fuzzy\<close>, \<open>get_all\<close>,
  \<open>get_low_stock\<close> and \<open>get_expiring_soon\<close> return is a stored row of the group asked
  for; \<open>update_quantity\<close>, \<open>delete_medicine\<close> and \<open>add_medicine\<close> leave the rows of
  every other group as they were, and \<open>update_quantity\<close> returns a row of its own group.
\<close>

theorem tenant_isolation:
  assumes ok: "db_ok d"
  shows "((\<forall>r \<in> set (medicines d). lower (name r) = lower nm \<longrightarrow> group_chat_id r \<noteq> g)
            \<longrightarrow> find_by_exact_name nm g d = None)
       \<and> (group_chat_id data \<noteq> g
            \<longrightarrow> find_by_exact_name nm g (snd (add_medicine now data d)) = find_by_exact_name nm g d)
       \<and> (\<forall>m. find_by_exact_name nm g d = Some m \<longrightarrow> m \<in> set (medicines d) \<and> group_chat_id m = g)
       \<and> (\<forall>m. get_by_id i g d = Some m \<longrightarrow> m \<in> set (medicines d) \<and> group_chat_id m = g)
       \<and> (\<forall>x \<in> set (find_by_name_fuzzy ratio nm g th d).
             fst x \<in> set (medicines d) \<and> group_chat_id (fst x) = g)
       \<and> (\<forall>m \<in> set (get_all g d). m \<in> set (medicines d) \<and> group_chat_id m = g)
       \<and> (\<forall>m \<in> set (get_low_stock g lim d). m \<in> set (medicines d) \<and> group_chat_id m = g)
       \<and> (\<forall>m \<in> set (get_expiring_soon cutoff g d). m \<in> set (medicines d) \<and> group_chat_id m = g)
       \<and> filter (\<lambda>r. group_chat_id r \<noteq> g) (medicines (snd (update_quantity now i delta g d)))
             = filter (\<lambda>r. group_chat_id r \<noteq> g) (medicines d)
       \<and> (\<forall>m. fst (update_quantity now i delta g d) = Inr m \<longrightarrow> group_chat_id m = g)
       \<and> filter (\<lambda>r. group_chat_id r \<noteq> g) (medicines (snd (delete_medicine i g d)))
             = filter (\<lambda>r. group_chat_id r \<noteq> g) (medicines d)
       \<and> filter (\<lambda>r. group_chat_id r \<noteq> group_chat_id data) (medicines (snd (add_medicine now data d)))
             = filter (\<lambda>r. group_chat_id r \<noteq> group_chat_id data) (medicines d)"
proof (intro conjI)
  show "(\<forall>r \<in> set (medicines d). lower (name r) = lower nm \<longrightarrow> group_chat_id r \<noteq> g)
            \<longrightarrow> find_by_exact_name nm g d = None"
    by (rule impI) (rule iso_find_exact_none)
  show "group_chat_id data \<noteq> g
            \<longrightarrow> find_by_exact_name nm g (snd (add_medicine now data d)) = find_by_exact_name nm g d"
    by (rule impI) (rule iso_add_medicine_find[OF ok])
  show "\<forall>m. find_by_exact_name nm g d = Some m \<longrightarrow> m \<in> set (medicines d) \<and> group_chat_id m = g"
    by (intro allI impI) (rule iso_find_exact)
  show "\<forall>m. get_by_id i g d = Some m \<longrightarrow> m \<in> set (medicines d) \<and> group_chat_id m = g"
    using iso_get_by_id[of i g d] by simp
  show "\<forall>x \<in> set (find_by_name_fuzzy ratio nm g th d).
             fst x \<in> set (medicines d) \<and> group_chat_id (fst x) = g"
    by (intro ballI) (rule iso_fuzzy)
  show "\<forall>m \<in> set (get_all g d). m \<in> set (medicines d) \<and> group_chat_id m = g"
    by (intro ballI) (rule iso_get_all)
  show "\<forall>m \<in> set (get_low_stock g lim d). m \<in> set (medicines d) \<and> group_chat_id m = g"
    by (intro ballI) (rule iso_low_stock)
  show "\<forall>m \<in> set (get_expiring_soon cutoff g d). m \<in> set (medicines d) \<and> group_chat_id m = g"
    by (intro ballI) (rule iso_expiring)
  show "filter (\<lambda>r. group_chat_id r \<noteq> g) (medicines (snd (update_quantity now i delta g d)))
             = filter (\<lambda>r. group_chat_id r \<noteq> g) (medicines d)"
    by (rule iso_update_quantity[OF ok])
  show "\<forall>m. fst (update_quantity now i delta g d) = Inr m \<longrightarrow> group_chat_id m = g"
    by (intro allI impI) (rule iso_update_quantity_result[OF ok])
  show "filter (\<lambda>r. group_chat_id r \<noteq> g) (medicines (snd (delete_medicine i g d)))
             = filter (\<lambda>r. group_chat_id r \<noteq> g) (medicines d)"
    by (rule iso_delete)
  show "filter (\<lambda>r. group_chat_id r \<noteq> group_chat_id data) (medicines (snd (add_medicine now data d)))
             = filter (\<lambda>r. group_chat_id r \<noteq> group_chat_id data) (medicines d)"
    by (rule iso_add_medicine[OF ok])
qed

theorem tenant_isolation_witness:
  "db_ok sample_db
   \<and> group_chat_id sample_refill \<noteq> 999999
   \<and> find_by_exact_name ''Napa'' 999999 sample_db = None
   \<and> find_by_exact_name ''Napa'' 999999 (snd (add_medicine ''2026-01-24 00:00:00'' sample_refill sample_db)) = None"
proof -
  have ok: "db_ok sample_db" by code_simp
  have only: "\<forall>r \<in> set (medicines sample_db). lower (name r) = lower ''Napa'' \<longrightarrow> group_chat_id r \<noteq> 999999"
    by code_simp
  have other: "group_chat_id sample_refill \<noteq> 999999" by code_simp
  note t = tenant_isolation[OF ok, where nm = "''Napa''" and g = 999999 and data = sample_refill
             and now = "''2026-01-24 00:00:00''"]
  from t[THEN conjunct1] only have a: "find_by_exact_name ''Napa'' 999999 sample_db = None"
    by (rule mp)
  from t[THEN conjunct2, THEN conjunct1] other
  have "find_by_exact_name ''Napa'' 999999 (snd (add_medicine ''2026-01-24 00:00:00'' sample_refill sample_db))
          = find_by_exact_name ''Napa'' 999999 sample_db"
    by (rule mp)
  with a have b: "find_by_exact_name ''Napa'' 999999 (snd (add_medicine ''2026-01-24 00:00:00'' sample_refill sample_db)) = None"
    by simp
  from ok other a b show ?thesis by (intro conjI)
qed

lemma fuzzy_unfold:
  "find_by_name_fuzzy ratio nm g th d =
     sort_key (\<lambda>x. - snd x)
       (filter (\<lambda>x. th \<le> snd x)
          (map (\<lambda>m. (m, ratio (lower nm) (lower (name m))))
             (filter (\<lambda>r. group_chat_id r = g) (medicines d))))"
  by (simp add: find_by_name_fuzzy_def Let_def)







lemma sorted_desc_head:
  assumes "sorted (map (\<lambda>x. - snd x) (h # rest))" and "x \<in> set (h # rest)"
  shows "snd x \<le> (snd h :: int)"
  using assms by auto

lemma fuzzy_sorted: "sorted (map (\<lambda>x. - snd x) (find_by_name_fuzzy ratio nm g th d))"
  unfolding fuzzy_unfold by (rule sorted_sort_key)

lemma fuzzy_threshold: "x \<in> set (find_by_name_fuzzy ratio nm g th d) \<Longrightarrow> th \<le> snd x"
  by (simp add: fuzzy_unfold)

lemma fuzzy_bound:
  "\<forall>a b. ratio a b \<le> 100 \<Longrightarrow> x \<in> set (find_by_name_fuzzy ratio nm g th d) \<Longrightarrow> snd x \<le> 100"
  by (auto simp: fuzzy_unfold)

lemma resolve_exact_leader:
  assumes srt: "sorted (map (\<lambda>x. - snd x) matches)"
    and mem: "(m, 100) \<in> set matches"
    and low: "\<forall>x \<in> set matches. x \<noteq> (m, 100) \<longrightarrow> snd x < 100"
  shows "handle_use_medicine_resolution matches = Resolved m 100"
    and "handle_delete_medicine_resolution matches = Resolved m 100"
proof -
  from mem obtain h rest where eq: "matches = h # rest" by (cases matches) auto
  from sorted_desc_head[OF srt[unfolded eq] mem[unfolded eq]] have "100 \<le> snd h" by simp
  with low eq have h: "h = (m, 100)" by fastforce
  show "handle_use_medicine_resolution matches = Resolved m 100"
    by (simp add: handle_use_medicine_resolution_def eq h)
  show "handle_delete_medicine_resolution matches = Resolved m 100"
    by (simp add: handle_delete_medicine_resolution_def eq h)
qed

lemma resolve_ambiguous:
  assumes srt: "sorted (map (\<lambda>x. - snd x) matches)"
    and bound: "\<forall>x \<in> set matches. snd x \<le> 100"
    and amb: "handle_use_medicine_resolution matches = Ambiguous cs
              \<or> handle_delete_medicine_resolution matches = Ambiguous cs"
  shows "2 \<le> length matches \<and> (\<forall>x \<in> set matches. snd x < 100) \<and> cs = take 5 matches"
proof -
  from amb obtain h rest where eq: "matches = h # rest"
    by (cases matches)
       (auto simp: handle_use_medicine_resolution_def handle_delete_medicine_resolution_def)
  from amb have len: "rest \<noteq> []" and ne: "snd h \<noteq> 100" and cs: "cs = take 5 matches"
    by (auto simp: handle_use_medicine_resolution_def handle_delete_medicine_resolution_def eq
             split: if_splits)
  from bound eq ne have "snd h < 100" by auto
  moreover have "snd x \<le> snd h" if "x \<in> set matches" for x
    using sorted_desc_head[OF srt[unfolded eq]] that eq by simp
  ultimately have "\<forall>x \<in> set matches. snd x < 100" by fastforce
  moreover from len eq have "2 \<le> length matches" by (cases rest) auto
  ultimately show ?thesis using cs by simp
qed

text \<open>
  C6: on the matches of \<open>find_by_name_fuzzy\<close>, when one candidate scores 100 and every
  other one less, both handlers resolve to that candidate. A handler answers "ambiguous"
  only when there are at least two matches and all of them, the best included, score below
  100 (and reach the threshold); it then lists the first five matches at most, in
  descending score order. The scorer is assumed to stay within 100.
\<close>

theorem resolution_policy:
  assumes bound: "\<forall>a b. ratio a b \<le> 100"
  shows "(let matches = find_by_name_fuzzy ratio nm g th d in
          (\<forall>m. (m, 100) \<in> set matches \<and> (\<forall>x \<in> set matches. x \<noteq> (m, 100) \<longrightarrow> snd x < 100)
             \<longrightarrow> handle_use_medicine_resolution matches = Resolved m 100
               \<and> handle_delete_medicine_resolution matches = Resolved m 100)
        \<and> (\<forall>cs. handle_use_medicine_resolution matches = Ambiguous cs
                 \<or> handle_delete_medicine_resolution matches = Ambiguous cs
             \<longrightarrow> 2 \<le> length matches
               \<and> (\<forall>x \<in> set matches. th \<le> snd x \<and> snd x < 100)
               \<and> cs = take 5 matches \<and> length cs \<le> 5
               \<and> sorted (map (\<lambda>x. - snd x) cs)))"
proof -
  let ?ms = "find_by_name_fuzzy ratio nm g th d"
  have srt: "sorted (map (\<lambda>x. - snd x) ?ms)" by (rule fuzzy_sorted)
  have bnd: "\<forall>x \<in> set ?ms. snd x \<le> 100" using fuzzy_bound[OF bound] by blast
  have a: "handle_use_medicine_resolution ?ms = Resolved m 100
           \<and> handle_delete_medicine_resolution ?ms = Resolved m 100"
    if "(m, 100) \<in> set ?ms \<and> (\<forall>x \<in> set ?ms. x \<noteq> (m, 100) \<longrightarrow> snd x < 100)" for m
    using resolve_exact_leader[OF srt, of m] that by simp
  have b: "2 \<le> length ?ms \<and> (\<forall>x \<in> set ?ms. th \<le> snd x \<and> snd x < 100)
           \<and> cs = take 5 ?ms \<and> length cs \<le> 5 \<and> sorted (map (\<lambda>x. - snd x) cs)"
    if amb: "handle_use_medicine_resolution ?ms = Ambiguous cs
             \<or> handle_delete_medicine_resolution ?ms = Ambiguous cs" for cs
  proof -
    from resolve_ambiguous[OF srt bnd amb]
    have l: "2 \<le> length ?ms" and lt: "\<forall>x \<in> set ?ms. snd x < 100" and cs: "cs = take 5 ?ms"
      by simp_all
    have "sorted (take 5 (map (\<lambda>x. - snd x) ?ms))" using srt by (rule sorted_wrt_take)
    then have "sorted (map (\<lambda>x. - snd x) cs)" by (simp add: cs take_map)
    moreover have "\<forall>x \<in> set ?ms. th \<le> snd x \<and> snd x < 100"
      using lt fuzzy_threshold[of _ ratio nm g th d] by blast
    ultimately show ?thesis using l cs by simp
  qed
  show ?thesis unfolding Let_def using a b by blast
qed

theorem resolution_policy_witness:
  "handle_use_medicine_resolution (find_by_name_fuzzy prefix_ratio ''Napa'' 789012 80 cabinet_db)
     = Resolved sample_row 100
   \<and> handle_delete_medicine_resolution (find_by_name_fuzzy prefix_ratio ''Napa'' 789012 80 cabinet_db)
     = Resolved sample_row 100
   \<and> handle_use_medicine_resolution (find_by_name_fuzzy prefix_ratio ''Nap'' 789012 80 cabinet_db)
     = Ambiguous [(sample_row, 80), (extra_row, 80)]"
proof -
  have bound: "\<forall>a b. prefix_ratio a b \<le> 100" by (simp add: prefix_ratio_def)
  have ms: "find_by_name_fuzzy prefix_ratio ''Napa'' 789012 80 cabinet_db
              = [(sample_row, 100), (extra_row, 80)]"
    by code_simp
  have ne: "(extra_row, 80::int) \<noteq> (sample_row, 100)" by simp
  have hyp: "(sample_row, 100) \<in> set (find_by_name_fuzzy prefix_ratio ''Napa'' 789012 80 cabinet_db)
             \<and> (\<forall>x \<in> set (find_by_name_fuzzy prefix_ratio ''Napa'' 789012 80 cabinet_db).
                   x \<noteq> (sample_row, 100) \<longrightarrow> snd x < 100)"
    unfolding ms by simp
  note t = resolution_policy[OF bound, where nm = "''Napa''" and g = 789012 and th = 80
             and d = cabinet_db, unfolded Let_def]
  from t[THEN conjunct1, rule_format, OF hyp]
  have a: "handle_use_medicine_resolution (find_by_name_fuzzy prefix_ratio ''Napa'' 789012 80 cabinet_db)
             = Resolved sample_row 100"
    and b: "handle_delete_medicine_resolution (find_by_name_fuzzy prefix_ratio ''Napa'' 789012 80 cabinet_db)
             = Resolved sample_row 100"
    by simp_all
  have c: "handle_use_medicine_resolution (find_by_name_fuzzy prefix_ratio ''Nap'' 789012 80 cabinet_db)
     = Ambiguous [(sample_row, 80), (extra_row, 80)]"
    by code_simp
  from a b c show ?thesis by (intro conjI)
qed











lemma length_filter_map: "length (filter P (map f xs)) = length (filter (\<lambda>x. P (f x)) xs)"
  by (induction xs) auto









section \<open>Properties of the classifiers\<close>

lemma is_space_lower_chr: "is_space (lower_chr c) = is_space c"
  by (auto simp: is_space_def lower_chr_def Let_def)

lemma dropWhile_space_lower: "dropWhile is_space (lower s) = lower (dropWhile is_space s)"
  by (induction s) (auto simp: lower_def is_space_lower_chr)

lemma strip_lower: "strip (lower s) = lower (strip s)"
proof -
  have r: "rev (lower s) = lower (rev s)" for s by (simp add: lower_def rev_map)
  show ?thesis
    unfolding strip_def by (simp only: dropWhile_space_lower r)
qed

lemma dropWhile_keeps_last:
  assumes "\<not> P x"
  shows "dropWhile P (rev (dropWhile P (rev (x # xs)))) = rev (dropWhile P (rev (x # xs)))"
proof -
  have "dropWhile P (rev xs @ [x]) = dropWhile P (rev xs) @ [x]"
    using assms by (simp add: dropWhile_append3)
  then show ?thesis using assms by simp
qed

lemma strip_strip: "strip (strip s) = strip s"
proof (cases "dropWhile is_space s")
  case Nil
  have e: "strip s = []" unfolding strip_def Nil by simp
  have "strip [] = []" by (simp add: strip_def)
  then show ?thesis unfolding e .
next
  case (Cons x xs)
  then have nx: "\<not> is_space x" by (metis hd_dropWhile list.sel(1) list.distinct(1))
  have "dropWhile is_space (strip s) = strip s"
    unfolding strip_def Cons using nx by (rule dropWhile_keeps_last[of is_space x xs])
  then show ?thesis
    unfolding strip_def by (simp add: dropWhile_idem)
qed

lemma list_parse_stripped:
  "ListCommandParser_parse (strip text) =
     (if list_ex (\<lambda>keyword. lower (strip text) = keyword \<or> startswith (lower (strip text)) keyword)
           LIST_KEYWORDS
      then Some (ParsedCommand ''list'') else None)"
  by (simp add: ListCommandParser_parse_def Let_def strip_lower strip_strip)

text \<open>
  C10: when the trimmed, lowered text starts with one of the list keywords, the dispatcher
  answers List, with no name and no quantity, whatever follows the keyword; "show allegra"
  and "listen" are such texts.
\<close>

theorem list_keyword_prefix:
  assumes "keyword \<in> set LIST_KEYWORDS" and "startswith (lower (strip text)) keyword"
  shows "CommandParser_parse date_parse text =
           Inr \<lparr>command_type = ''list'', medicine_name = None, quantity_p = None,
                unit_p = ''tablets'', expiry_date_p = None, location_p = None,
                confidence = 1, raw_text = strip text\<rparr>"
proof -
  from assms have "list_ex (\<lambda>keyword. lower (strip text) = keyword
                             \<or> startswith (lower (strip text)) keyword) LIST_KEYWORDS"
    unfolding list_ex_iff by blast
  then have "ListCommandParser_parse (strip text) = Some (ParsedCommand ''list'')"
    by (simp add: list_parse_stripped)
  then show ?thesis
    by (simp add: CommandParser_parse_def Let_def ParsedCommand_def)
qed

theorem list_keyword_prefix_witness:
  "CommandParser_parse no_dates ''show allegra'' =
     Inr \<lparr>command_type = ''list'', medicine_name = None, quantity_p = None,
          unit_p = ''tablets'', expiry_date_p = None, location_p = None,
          confidence = 1, raw_text = ''show allegra''\<rparr>
   \<and> CommandParser_parse no_dates ''listen'' =
     Inr \<lparr>command_type = ''list'', medicine_name = None, quantity_p = None,
          unit_p = ''tablets'', expiry_date_p = None, location_p = None,
          confidence = 1, raw_text = ''listen''\<rparr>"
proof -
  have k1: "''show all'' \<in> set LIST_KEYWORDS" by code_simp
  have p1: "startswith (lower (strip ''show allegra'')) ''show all''" by code_simp
  have s1: "strip ''show allegra'' = ''show allegra''" by code_simp
  have k2: "''list'' \<in> set LIST_KEYWORDS" by code_simp
  have p2: "startswith (lower (strip ''listen'')) ''list''" by code_simp
  have s2: "strip ''listen'' = ''listen''" by code_simp
  from list_keyword_prefix[OF k1 p1, of no_dates] list_keyword_prefix[OF k2 p2, of no_dates]
  show ?thesis unfolding s1 s2 by (rule conjI)
qed


text \<open>
  C3: the dispatcher asks List, then Add, then Use, then Search, and answers with the
  first result, its raw text set to the trimmed input; when all four decline it answers
  Unknown with confidence 0. "10 Napa" is Add (Napa, 10), "?all" is List, "-Napa 2" is
  Use (Napa, 2), "Took some paracetamol" is Use with quantity 1, "Hello world" is Unknown.
\<close>

theorem dispatcher_precedence:
  "(\<forall>r. ListCommandParser_parse (strip msg) = Some r
        \<longrightarrow> CommandParser_parse dp msg = Inr (r\<lparr>raw_text := strip msg\<rparr>))
   \<and> (\<forall>r. ListCommandParser_parse (strip msg) = None
          \<and> AddCommandParser_parse dp (strip msg) = Inr (Some r)
        \<longrightarrow> CommandParser_parse dp msg = Inr (r\<lparr>raw_text := strip msg\<rparr>))
   \<and> (\<forall>r. ListCommandParser_parse (strip msg) = None
          \<and> AddCommandParser_parse dp (strip msg) = Inr None
          \<and> UseCommandParser_parse (strip msg) = Inr (Some r)
        \<longrightarrow> CommandParser_parse dp msg = Inr (r\<lparr>raw_text := strip msg\<rparr>))
   \<and> (\<forall>r. ListCommandParser_parse (strip msg) = None
          \<and> AddCommandParser_parse dp (strip msg) = Inr None
          \<and> UseCommandParser_parse (strip msg) = Inr None
          \<and> SearchCommandParser_parse (strip msg) = Inr (Some r)
        \<longrightarrow> CommandParser_parse dp msg = Inr (r\<lparr>raw_text := strip msg\<rparr>))
   \<and> (ListCommandParser_parse (strip msg) = None
          \<and> AddCommandParser_parse dp (strip msg) = Inr None
          \<and> UseCommandParser_parse (strip msg) = Inr None
          \<and> SearchCommandParser_parse (strip msg) = Inr None
        \<longrightarrow> CommandParser_parse dp msg =
              Inr \<lparr>command_type = ''unknown'', medicine_name = None, quantity_p = None,
                   unit_p = ''tablets'', expiry_date_p = None, location_p = None,
                   confidence = 0, raw_text = strip msg\<rparr>)
   \<and> CommandParser_parse dp ''10 Napa'' =
         Inr \<lparr>command_type = ''add'', medicine_name = Some ''Napa'', quantity_p = Some 10,
              unit_p = ''tablets'', expiry_date_p = None, location_p = None,
              confidence = 1, raw_text = ''10 Napa''\<rparr>
   \<and> CommandParser_parse dp ''?all'' =
         Inr \<lparr>command_type = ''list'', medicine_name = None, quantity_p = None,
              unit_p = ''tablets'', expiry_date_p = None, location_p = None,
              confidence = 1, raw_text = ''?all''\<rparr>
   \<and> CommandParser_parse dp ''-Napa 2'' =
         Inr \<lparr>command_type = ''use'', medicine_name = Some ''Napa'', quantity_p = Some 2,
              unit_p = ''tablets'', expiry_date_p = None, location_p = None,
              confidence = 1, raw_text = ''-Napa 2''\<rparr>
   \<and> CommandParser_parse dp ''Took some paracetamol'' =
         Inr \<lparr>command_type = ''use'', medicine_name = Some ''Paracetamol'', quantity_p = Some 1,
              unit_p = ''tablets'', expiry_date_p = None, location_p = None,
              confidence = 1, raw_text = ''Took some paracetamol''\<rparr>
   \<and> CommandParser_parse dp ''Hello world'' =
         Inr \<lparr>command_type = ''unknown'', medicine_name = None, quantity_p = None,
              unit_p = ''tablets'', expiry_date_p = None, location_p = None,
              confidence = 0, raw_text = ''Hello world''\<rparr>"
proof (intro conjI)
  show "\<forall>r. ListCommandParser_parse (strip msg) = Some r
        \<longrightarrow> CommandParser_parse dp msg = Inr (r\<lparr>raw_text := strip msg\<rparr>)"
    by (simp add: CommandParser_parse_def Let_def)
  show "\<forall>r. ListCommandParser_parse (strip msg) = None
          \<and> AddCommandParser_parse dp (strip msg) = Inr (Some r)
        \<longrightarrow> CommandParser_parse dp msg = Inr (r\<lparr>raw_text := strip msg\<rparr>)"
    by (simp add: CommandParser_parse_def Let_def)
  show "\<forall>r. ListCommandParser_parse (strip msg) = None
          \<and> AddCommandParser_parse dp (strip msg) = Inr None
          \<and> UseCommandParser_parse (strip msg) = Inr (Some r)
        \<longrightarrow> CommandParser_parse dp msg = Inr (r\<lparr>raw_text := strip msg\<rparr>)"
    by (simp add: CommandParser_parse_def Let_def)
  show "\<forall>r. ListCommandParser_parse (strip msg) = None
          \<and> AddCommandParser_parse dp (strip msg) = Inr None
          \<and> UseCommandParser_parse (strip msg) = Inr None
          \<and> SearchCommandParser_parse (strip msg) = Inr (Some r)
        \<longrightarrow> CommandParser_parse dp msg = Inr (r\<lparr>raw_text := strip msg\<rparr>)"
    by (simp add: CommandParser_parse_def Let_def)
  show "ListCommandParser_parse (strip msg) = None
          \<and> AddCommandParser_parse dp (strip msg) = Inr None
          \<and> UseCommandParser_parse (strip msg) = Inr None
          \<and> SearchCommandParser_parse (strip msg) = Inr None
        \<longrightarrow> CommandParser_parse dp msg =
              Inr \<lparr>command_type = ''unknown'', medicine_name = None, quantity_p = None,
                   unit_p = ''tablets'', expiry_date_p = None, location_p = None,
                   confidence = 0, raw_text = strip msg\<rparr>"
    by (simp add: CommandParser_parse_def Let_def ParsedCommand_def)
  show "CommandParser_parse dp ''10 Napa'' =
         Inr \<lparr>command_type = ''add'', medicine_name = Some ''Napa'', quantity_p = Some 10,
              unit_p = ''tablets'', expiry_date_p = None, location_p = None,
              confidence = 1, raw_text = ''10 Napa''\<rparr>"
    by code_simp
  show "CommandParser_parse dp ''?all'' =
         Inr \<lparr>command_type = ''list'', medicine_name = None, quantity_p = None,
              unit_p = ''tablets'', expiry_date_p = None, location_p = None,
              confidence = 1, raw_text = ''?all''\<rparr>"
    by code_simp
  show "CommandParser_parse dp ''-Napa 2'' =
         Inr \<lparr>command_type = ''use'', medicine_name = Some ''Napa'', quantity_p = Some 2,
              unit_p = ''tablets'', expiry_date_p = None, location_p = None,
              confidence = 1, raw_text = ''-Napa 2''\<rparr>"
    by code_simp
  show "CommandParser_parse dp ''Took some paracetamol'' =
         Inr \<lparr>command_type = ''use'', medicine_name = Some ''Paracetamol'', quantity_p = Some 1,
              unit_p = ''tablets'', expiry_date_p = None, location_p = None,
              confidence = 1, raw_text = ''Took some paracetamol''\<rparr>"
    by code_simp
  show "CommandParser_parse dp ''Hello world'' =
         Inr \<lparr>command_type = ''unknown'', medicine_name = None, quantity_p = None,
              unit_p = ''tablets'', expiry_date_p = None, location_p = None,
              confidence = 0, raw_text = ''Hello world''\<rparr>"
    by code_simp
qed

theorem dispatcher_precedence_witness:
  "CommandParser_parse no_dates ''Used 2 Napa'' =
     Inr \<lparr>command_type = ''use'', medicine_name = Some ''Napa'', quantity_p = Some 2,
          unit_p = ''tablets'', expiry_date_p = None, location_p = None,
          confidence = 1, raw_text = ''Used 2 Napa''\<rparr>
   \<and> CommandParser_parse no_dates ''Random text'' =
     Inr \<lparr>command_type = ''unknown'', medicine_name = None, quantity_p = None,
          unit_p = ''tablets'', expiry_date_p = None, location_p = None,
          confidence = 0, raw_text = ''Random text''\<rparr>"
proof -
  have s1: "strip ''Used 2 Napa'' = ''Used 2 Napa''" by code_simp
  have l1: "ListCommandParser_parse ''Used 2 Napa'' = None" by code_simp
  have a1: "AddCommandParser_parse no_dates ''Used 2 Napa'' = Inr None" by code_simp
  have u1: "UseCommandParser_parse ''Used 2 Napa'' =
              Inr (Some \<lparr>command_type = ''use'', medicine_name = Some ''Napa'', quantity_p = Some 2,
                         unit_p = ''tablets'', expiry_date_p = None, location_p = None,
                         confidence = 1, raw_text = []\<rparr>)"
    by code_simp
  note t1 = dispatcher_precedence[where msg = "''Used 2 Napa''" and dp = no_dates, unfolded s1]
  from t1[THEN conjunct2, THEN conjunct2, THEN conjunct1, rule_format, OF conjI[OF l1 conjI[OF a1 u1]]]
  have r1: "CommandParser_parse no_dates ''Used 2 Napa'' =
     Inr \<lparr>command_type = ''use'', medicine_name = Some ''Napa'', quantity_p = Some 2,
          unit_p = ''tablets'', expiry_date_p = None, location_p = None,
          confidence = 1, raw_text = ''Used 2 Napa''\<rparr>"
    by simp
  have s2: "strip ''Random text'' = ''Random text''" by code_simp
  have l2: "ListCommandParser_parse ''Random text'' = None" by code_simp
  have a2: "AddCommandParser_parse no_dates ''Random text'' = Inr None" by code_simp
  have u2: "UseCommandParser_parse ''Random text'' = Inr None" by code_simp
  have c2: "SearchCommandParser_parse ''Random text'' = Inr None" by code_simp
  note t2 = dispatcher_precedence[where msg = "''Random text''" and dp = no_dates, unfolded s2]
  from t2[THEN conjunct2, THEN conjunct2, THEN conjunct2, THEN conjunct2, THEN conjunct1,
          rule_format, OF conjI[OF l2 conjI[OF a2 conjI[OF u2 c2]]]]
  have r2: "CommandParser_parse no_dates ''Random text'' =
     Inr \<lparr>command_type = ''unknown'', medicine_name = None, quantity_p = None,
          unit_p = ''tablets'', expiry_date_p = None, location_p = None,
          confidence = 0, raw_text = ''Random text''\<rparr>" .
  from r1 r2 show ?thesis by (rule conjI)
qed

text \<open>
  C9: the classifiers do raise. With a leading \<open>+\<close> the Add classifier reads a second group
  even when the pattern that matched has one (IndexError); with a leading digit it converts
  the first group even when that is the name (ValueError); the Use classifier reads a second
  group after its one-group pattern matched a number (IndexError). The dispatcher lets
  these through.
\<close>

theorem classifiers_raise:
  "AddCommandParser_parse dp ''+got napa'' = Inl IndexError
   \<and> CommandParser_parse dp ''+got napa'' = Inl IndexError
   \<and> AddCommandParser_parse dp ''5 got napa 3'' = Inl ValueError
   \<and> CommandParser_parse dp ''5 got napa 3'' = Inl ValueError
   \<and> UseCommandParser_parse ''took 5'' = Inl IndexError
   \<and> CommandParser_parse dp ''took 5'' = Inl IndexError"
proof (intro conjI)
  show "AddCommandParser_parse dp ''+got napa'' = Inl IndexError" by code_simp
  show "CommandParser_parse dp ''+got napa'' = Inl IndexError" by code_simp
  show "AddCommandParser_parse dp ''5 got napa 3'' = Inl ValueError" by code_simp
  show "CommandParser_parse dp ''5 got napa 3'' = Inl ValueError" by code_simp
  show "UseCommandParser_parse ''took 5'' = Inl IndexError" by code_simp
  show "CommandParser_parse dp ''took 5'' = Inl IndexError" by code_simp
qed

end
